theory Spec2Isabelle
  imports Main "HOL-Library.Sublist"
begin

section \<open>Credential authentication\<close>

text \<open>
  The authentication guide gives two NextAuth configurations, a basic and an advanced
  one. Each has its own \<^verbatim>\<open>authorize\<close> function for the credentials provider, and
  its own \<^verbatim>\<open>jwt\<close> and \<^verbatim>\<open>session\<close> callbacks. Both are embedded here, under
  the source's names with the suffix \<open>_basic\<close> or \<open>_advanced\<close>.

  The database lookup \<^verbatim>\<open>prisma.user.findUnique({ where: { email } })\<close> and the
  hash comparison \<^verbatim>\<open>bcrypt.compare\<close> are library calls; they are parameters
  \<open>findUnique\<close> and \<open>compare\<close> of the embedded functions.
\<close>

subsection \<open>Data\<close>

text \<open>
  The row of the \<^verbatim>\<open>users\<close> table, with the columns that the two
  \<^verbatim>\<open>authorize\<close> functions read. \<^verbatim>\<open>password\<close> is nullable. Role and status are
  enumeration columns (\<^verbatim>\<open>UserRole\<close>: ADMIN, USER, MODERATOR; \<^verbatim>\<open>UserStatus\<close>: ACTIVE,
  INACTIVE, PENDING, SUSPENDED) that reach the code as strings, which is how the code
  compares them.
\<close>

record user_row =
  user_id :: string
  user_email :: string
  user_name :: "string option"
  user_image :: "string option"
  user_password :: "string option"
  user_role :: string
  user_status :: string

text \<open>The \<^verbatim>\<open>credentials\<close> argument; the whole object may be undefined.\<close>

record credentials =
  cred_email :: string
  cred_password :: string

text \<open>
  The object that \<^verbatim>\<open>authorize\<close> returns. The basic version builds it without
  \<^verbatim>\<open>role\<close> and \<^verbatim>\<open>status\<close>, so reading them yields undefined: they are optional.
\<close>

record auth_user =
  au_id :: string
  au_email :: string
  au_name :: "string option"
  au_image :: "string option"
  au_role :: "string option"
  au_status :: "string option"

text \<open>The four errors that the advanced \<^verbatim>\<open>authorize\<close> throws, and their messages.\<close>

datatype auth_error =
  EmailPasswordRequired
  | InvalidCredentials
  | AccountSuspended
  | AccountPending

fun message :: "auth_error \<Rightarrow> string" where
  "message EmailPasswordRequired = ''Email and password are required''"
| "message InvalidCredentials = ''Invalid credentials''"
| "message AccountSuspended = ''Account is suspended''"
| "message AccountPending = ''Account is pending verification''"

subsection \<open>The basic authorize\<close>

text \<open>
  Every failure returns \<^verbatim>\<open>null\<close> (\<open>None\<close>). The tests \<^verbatim>\<open>!credentials?.email\<close>
  and \<^verbatim>\<open>!user.password\<close> are JavaScript truthiness tests: the empty string fails
  them as undefined and null do.
\<close>

definition authorize_basic ::
  "(string \<Rightarrow> user_row option) \<Rightarrow> (string \<Rightarrow> string \<Rightarrow> bool) \<Rightarrow> credentials option
    \<Rightarrow> auth_user option" where
  "authorize_basic findUnique compare creds =
     (case creds of
        None \<Rightarrow> None
      | Some c \<Rightarrow>
          if cred_email c = [] \<or> cred_password c = [] then None
          else
            (case findUnique (cred_email c) of
               None \<Rightarrow> None
             | Some user \<Rightarrow>
                 (case user_password user of
                    None \<Rightarrow> None
                  | Some hashed \<Rightarrow>
                      if hashed = [] then None
                      else if \<not> compare (cred_password c) hashed then None
                      else Some \<lparr>au_id = user_id user, au_email = user_email user,
                                 au_name = user_name user, au_image = user_image user,
                                 au_role = None, au_status = None\<rparr>)))"

subsection \<open>The advanced authorize\<close>

text \<open>
  Every failure throws; the thrown error is the \<open>Inl\<close> branch. The order of the checks
  is the source's: presence of the two fields, lookup, stored password, comparison, and
  only then the two status tests.
\<close>

definition authorize_advanced ::
  "(string \<Rightarrow> user_row option) \<Rightarrow> (string \<Rightarrow> string \<Rightarrow> bool) \<Rightarrow> credentials option
    \<Rightarrow> auth_error + auth_user" where
  "authorize_advanced findUnique compare creds =
     (case creds of
        None \<Rightarrow> Inl EmailPasswordRequired
      | Some c \<Rightarrow>
          if cred_email c = [] \<or> cred_password c = [] then Inl EmailPasswordRequired
          else
            (case findUnique (cred_email c) of
               None \<Rightarrow> Inl InvalidCredentials
             | Some user \<Rightarrow>
                 (case user_password user of
                    None \<Rightarrow> Inl InvalidCredentials
                  | Some hashed \<Rightarrow>
                      if hashed = [] then Inl InvalidCredentials
                      else if \<not> compare (cred_password c) hashed then Inl InvalidCredentials
                      else if user_status user = ''SUSPENDED'' then Inl AccountSuspended
                      else if user_status user = ''PENDING'' then Inl AccountPending
                      else Inr \<lparr>au_id = user_id user, au_email = user_email user,
                                au_name = user_name user, au_image = user_image user,
                                au_role = Some (user_role user),
                                au_status = Some (user_status user)\<rparr>)))"

subsection \<open>Example data\<close>

text \<open>
  A stand-in for the hash comparison, a user row with a given status whose stored hash
  is the one of \<open>''secret1''\<close>, and a table that holds this row only.
\<close>

definition example_compare :: "string \<Rightarrow> string \<Rightarrow> bool" where
  "example_compare secret hashed = (hashed = ''hash:'' @ secret)"

definition example_user :: "string \<Rightarrow> user_row" where
  "example_user st =
     \<lparr>user_id = ''u1'', user_email = ''a@x.com'', user_name = Some ''A'',
      user_image = None, user_password = Some ''hash:secret1'',
      user_role = ''USER'', user_status = st\<rparr>"

definition example_table :: "string \<Rightarrow> string \<Rightarrow> user_row option" where
  "example_table st e = (if e = ''a@x.com'' then Some (example_user st) else None)"

definition example_credentials :: "string \<Rightarrow> credentials" where
  "example_credentials secret = \<lparr>cred_email = ''a@x.com'', cred_password = secret\<rparr>"


section \<open>Token and session callbacks\<close>

subsection \<open>Data\<close>

text \<open>
  The token object handed to the callbacks, with the properties that the callbacks
  read or write. Every other property of the object (the standard claims that the
  library adds when it signs the token, among them the issue and expiry times) lives
  in the extension of the record, so that the callbacks are defined for every token
  and cannot touch what they do not name.
\<close>

record token =
  tok_id :: "string option"
  tok_role :: "string option"
  tok_status :: "string option"
  tok_accessToken :: "string option"
  tok_refreshToken :: "string option"
  tok_provider :: "string option"

text \<open>A token together with its issue time and its expiry time, in seconds.\<close>

record timed_token = token +
  tok_iat :: nat
  tok_exp :: nat

text \<open>The \<^verbatim>\<open>account\<close> argument of the advanced \<^verbatim>\<open>jwt\<close> callback.\<close>

record account =
  access_token :: "string option"
  refresh_token :: "string option"
  provider :: string

text \<open>The session object and its \<^verbatim>\<open>user\<close>, which may be undefined.\<close>

record session_user =
  su_name :: "string option"
  su_email :: "string option"
  su_image :: "string option"
  su_id :: "string option"
  su_role :: "string option"
  su_status :: "string option"

record session =
  ses_user :: "session_user option"
  ses_accessToken :: "string option"
  ses_refreshToken :: "string option"
  ses_provider :: "string option"

datatype js_error = TypeError

subsection \<open>The jwt callbacks\<close>

text \<open>
  \<^verbatim>\<open>if (user) { token.id = user.id }\<close>, and in the advanced version the role and
  the status as well, followed by \<^verbatim>\<open>if (account) { ... }\<close>. The callback returns
  the token object it was given.
\<close>

definition jwt_basic :: "'a token_scheme \<Rightarrow> auth_user option \<Rightarrow> 'a token_scheme" where
  "jwt_basic tok user =
     (case user of
        None \<Rightarrow> tok
      | Some u \<Rightarrow> tok\<lparr>tok_id := Some (au_id u)\<rparr>)"

definition jwt_advanced ::
  "'a token_scheme \<Rightarrow> auth_user option \<Rightarrow> account option \<Rightarrow> 'a token_scheme" where
  "jwt_advanced tok user acct =
     (let tok1 =
            (case user of
               None \<Rightarrow> tok
             | Some u \<Rightarrow> tok\<lparr>tok_id := Some (au_id u), tok_role := au_role u,
                              tok_status := au_status u\<rparr>);
          tok2 =
            (case acct of
               None \<Rightarrow> tok1
             | Some a \<Rightarrow> tok1\<lparr>tok_accessToken := access_token a,
                               tok_refreshToken := refresh_token a,
                               tok_provider := Some (provider a)\<rparr>)
      in tok2)"

subsection \<open>The session callbacks\<close>

text \<open>
  The basic callback writes the id only, under the guard
  \<^verbatim>\<open>token && session.user\<close>. The advanced callback has the guard \<^verbatim>\<open>token\<close>
  alone and writes \<^verbatim>\<open>session.user.id\<close> first: with an undefined
  \<^verbatim>\<open>session.user\<close> that assignment throws a TypeError before anything is written.
\<close>

definition session_basic :: "session \<Rightarrow> 'a token_scheme option \<Rightarrow> session" where
  "session_basic ses tok =
     (case tok of
        None \<Rightarrow> ses
      | Some t \<Rightarrow>
          (case ses_user ses of
             None \<Rightarrow> ses
           | Some su \<Rightarrow> ses\<lparr>ses_user := Some (su\<lparr>su_id := tok_id t\<rparr>)\<rparr>))"

definition session_advanced ::
  "session \<Rightarrow> 'a token_scheme option \<Rightarrow> js_error + session" where
  "session_advanced ses tok =
     (case tok of
        None \<Rightarrow> Inr ses
      | Some t \<Rightarrow>
          (case ses_user ses of
             None \<Rightarrow> Inl TypeError
           | Some su \<Rightarrow>
               Inr (ses\<lparr>ses_user := Some (su\<lparr>su_id := tok_id t, su_role := tok_role t,
                                              su_status := tok_status t\<rparr>),
                        ses_accessToken := tok_accessToken t,
                        ses_refreshToken := tok_refreshToken t,
                        ses_provider := tok_provider t\<rparr>)))"

text \<open>
  The session callbacks assign to properties of their \<^verbatim>\<open>session\<close> argument and
  return that same object. To speak of what a call leaves behind, the two objects that a
  call can reach are put in a record, and a call maps the record before the call to
  the value returned (or the error thrown) and the record after the call.
\<close>

record 'a callback_objects =
  obj_session :: session
  obj_token :: "'a token_scheme option"

definition session_basic_call ::
  "'a callback_objects \<Rightarrow> session \<times> 'a callback_objects" where
  "session_basic_call objs =
     (let ses = session_basic (obj_session objs) (obj_token objs)
      in (ses, objs\<lparr>obj_session := ses\<rparr>))"

definition session_advanced_call ::
  "'a callback_objects \<Rightarrow> (js_error + session) \<times> 'a callback_objects" where
  "session_advanced_call objs =
     (case session_advanced (obj_session objs) (obj_token objs) of
        Inl e \<Rightarrow> (Inl e, objs)
      | Inr ses \<Rightarrow> (Inr ses, objs\<lparr>obj_session := ses\<rparr>))"

subsection \<open>Session options\<close>

text \<open>
  \<^verbatim>\<open>session: { strategy: 'jwt' }\<close> in the basic configuration; the advanced one adds
  \<^verbatim>\<open>maxAge: 30 * 24 * 60 * 60, // 30 days\<close> and
  \<^verbatim>\<open>updateAge: 24 * 60 * 60, // 24 hours\<close>.
\<close>

record session_options =
  strategy :: string
  maxAge :: "nat option"
  updateAge :: "nat option"

definition session_options_basic :: session_options where
  "session_options_basic = \<lparr>strategy = ''jwt'', maxAge = None, updateAge = None\<rparr>"

definition session_options_advanced :: session_options where
  "session_options_advanced =
     \<lparr>strategy = ''jwt'', maxAge = Some (30 * 24 * 60 * 60),
      updateAge = Some (24 * 60 * 60)\<rparr>"

subsection \<open>Example data\<close>


definition example_token :: "nat \<Rightarrow> nat \<Rightarrow> timed_token" where
  "example_token issued expires =
     \<lparr>tok_id = None, tok_role = None, tok_status = None, tok_accessToken = None,
      tok_refreshToken = None, tok_provider = None, tok_iat = issued, tok_exp = expires\<rparr>"

definition example_session_user :: session_user where
  "example_session_user =
     \<lparr>su_name = Some ''A'', su_email = Some ''a@x.com'', su_image = None,
      su_id = None, su_role = None, su_status = None\<rparr>"

definition example_session :: session where
  "example_session =
     \<lparr>ses_user = Some example_session_user,
      ses_accessToken = None, ses_refreshToken = None, ses_provider = None\<rparr>"

text \<open>The example session together with a token that carries the id \<open>''u1''\<close>.\<close>

definition example_objects :: "unit timed_token_ext callback_objects" where
  "example_objects =
     \<lparr>obj_session = example_session,
      obj_token = Some ((example_token 0 86400)\<lparr>tok_id := Some ''u1''\<rparr>)\<rparr>"

section \<open>Route protection\<close>

text \<open>
  \<^verbatim>\<open>pathname.startsWith(p)\<close>. The token of a request is the decoded token object
  or null; \<^verbatim>\<open>!!token\<close> and \<^verbatim>\<open>!token\<close> test for null.
\<close>

definition startsWith :: "string \<Rightarrow> string \<Rightarrow> bool" where
  "startsWith s p = prefix p s"

text \<open>
  What the middleware function hands back: a redirect to a path of the same origin
  with its search parameters, a JSON body with a status code, or
  \<^verbatim>\<open>NextResponse.next()\<close>.
\<close>

datatype response =
  Redirect string "(string \<times> string) list"
  | Json string nat
  | Next

subsection \<open>The advanced authentication middleware of the middleware guide\<close>

text \<open>
  The \<^verbatim>\<open>authorized\<close> callback and the middleware function that runs when the
  callback has answered true. In the source the admin test and the API test are nested
  \<^verbatim>\<open>if\<close>s without \<^verbatim>\<open>else\<close>; here each pair is one condition.
\<close>

definition authorized_advanced :: "'a token_scheme option \<Rightarrow> string \<Rightarrow> bool" where
  "authorized_advanced tok pathname =
     (if startsWith pathname ''/auth'' \<or> pathname = ''/'' then True
      else if startsWith pathname ''/dashboard'' \<or> startsWith pathname ''/api/protected''
        then tok \<noteq> None
      else True)"

definition middleware_advanced :: "'a token_scheme option \<Rightarrow> string \<Rightarrow> response" where
  "middleware_advanced tok pathname =
     (if tok \<noteq> None \<and> startsWith pathname ''/auth'' then Redirect ''/dashboard'' []
      else if tok = None \<and> startsWith pathname ''/dashboard''
        then Redirect ''/auth/sign-in'' [(''callbackUrl'', pathname)]
      else if startsWith pathname ''/dashboard/admin''
          \<and> (case tok of None \<Rightarrow> True | Some t \<Rightarrow> tok_role t \<noteq> Some ''admin'')
        then Redirect ''/dashboard'' []
      else if startsWith pathname ''/api/protected'' \<and> tok = None
        then Json ''Unauthorized'' 401
      else Next)"

subsection \<open>The authorized callback of the authentication guide\<close>

definition authorized_route_protection :: "'a token_scheme option \<Rightarrow> string \<Rightarrow> bool" where
  "authorized_route_protection tok pathname =
     (if startsWith pathname ''/dashboard'' then tok \<noteq> None
      else if startsWith pathname ''/admin''
        then (case tok of None \<Rightarrow> False | Some t \<Rightarrow> tok_role t = Some ''ADMIN'')
      else True)"

subsection \<open>The ProtectedRoute component\<close>

text \<open>
  The component renders the fallback, nothing, or its children; its effect pushes at
  most one path to the router. \<^verbatim>\<open>requiredRole && ...\<close> is a truthiness test, and
  \<^verbatim>\<open>session.user.role\<close> throws when \<^verbatim>\<open>session.user\<close> is undefined.
\<close>

datatype rendered = Fallback | Null | Children

definition role_mismatch :: "session \<Rightarrow> string option \<Rightarrow> js_error + bool" where
  "role_mismatch ses requiredRole =
     (case requiredRole of
        None \<Rightarrow> Inr False
      | Some r \<Rightarrow>
          if r = [] then Inr False
          else
            (case ses_user ses of
               None \<Rightarrow> Inl TypeError
             | Some su \<Rightarrow> Inr (su_role su \<noteq> Some r)))"

definition ProtectedRoute_effect ::
  "session option \<Rightarrow> string \<Rightarrow> string option \<Rightarrow> js_error + string option" where
  "ProtectedRoute_effect ses status requiredRole =
     (if status = ''loading'' then Inr None
      else
        (case ses of
           None \<Rightarrow> Inr (Some ''/auth/sign-in'')
         | Some s \<Rightarrow>
             (case role_mismatch s requiredRole of
                Inl e \<Rightarrow> Inl e
              | Inr mismatch \<Rightarrow> Inr (if mismatch then Some ''/dashboard'' else None))))"

definition ProtectedRoute ::
  "session option \<Rightarrow> string \<Rightarrow> string option \<Rightarrow> js_error + rendered" where
  "ProtectedRoute ses status requiredRole =
     (if status = ''loading'' then Inr Fallback
      else
        (case ses of
           None \<Rightarrow> Inr Null
         | Some s \<Rightarrow>
             (case role_mismatch s requiredRole of
                Inl e \<Rightarrow> Inl e
              | Inr mismatch \<Rightarrow> Inr (if mismatch then Null else Children))))"

section \<open>The sign-in form\<close>

text \<open>
  \<^verbatim>\<open>handleSubmit\<close> awaits \<^verbatim>\<open>signIn('credentials', ...)\<close> and, when the result
  carries no error, \<^verbatim>\<open>getSession()\<close>. Each await either yields a value or throws
  into the \<^verbatim>\<open>catch\<close> block; the two outcomes are the arguments of the embedded
  function. It returns the state of the form after the handler and the calls it made on
  the router.
\<close>

datatype 'a awaited = Rejected | Resolved 'a

text \<open>The result of \<^verbatim>\<open>signIn\<close>, of which the handler reads \<^verbatim>\<open>error\<close> only.\<close>

record sign_in_response =
  sir_error :: "string option"

record form_state =
  fs_email :: string
  fs_password :: string
  fs_isLoading :: bool
  fs_error :: string

datatype router_call = Push string | Refresh

definition handleSubmit ::
  "form_state \<Rightarrow> sign_in_response option awaited \<Rightarrow> session option awaited
    \<Rightarrow> form_state \<times> router_call list" where
  "handleSubmit st signIn_outcome getSession_outcome =
     (let st1 = st\<lparr>fs_isLoading := True, fs_error := []\<rparr>;
          caught = (st1\<lparr>fs_error := ''An error occurred. Please try again.'',
                        fs_isLoading := False\<rparr>, [])
      in case signIn_outcome of
           Rejected \<Rightarrow> caught
         | Resolved result \<Rightarrow>
             if (case result of
                   None \<Rightarrow> False
                 | Some r \<Rightarrow> (case sir_error r of None \<Rightarrow> False | Some e \<Rightarrow> e \<noteq> []))
             then (st1\<lparr>fs_error := ''Invalid email or password''\<rparr>, [])
             else
               (case getSession_outcome of
                  Rejected \<Rightarrow> caught
                | Resolved None \<Rightarrow> (st1, [])
                | Resolved (Some ses) \<Rightarrow> (st1, [Push ''/dashboard/overview'', Refresh])))"

section \<open>Properties of the two authorize functions\<close>

lemmas example_defs =
  example_compare_def example_user_def example_table_def example_credentials_def

text \<open>
  The status tests of the advanced \<^verbatim>\<open>authorize\<close> name SUSPENDED and PENDING. A row
  with any other status, INACTIVE included, passes them.
\<close>

lemma authorize_advanced_other_status:
  "authorize_advanced (example_table ''INACTIVE'') example_compare
     (Some (example_credentials ''secret1''))
   = Inr \<lparr>au_id = ''u1'', au_email = ''a@x.com'', au_name = Some ''A'', au_image = None,
           au_role = Some ''USER'', au_status = Some ''INACTIVE''\<rparr>"
  by (simp add: authorize_advanced_def example_defs)

text \<open>
  Claim C1, as stated: for every user record whose status is suspended, authorize never
  returns a successful result, even when the secret matches the stored hash.
  This fails on the basic \<^verbatim>\<open>authorize\<close>, which never reads the status: for the
  suspended example user and the right secret it returns the user object.
\<close>

theorem authorize_basic_admits_suspended:
  "authorize_basic (example_table ''SUSPENDED'') example_compare
     (Some (example_credentials ''secret1''))
   = Some \<lparr>au_id = ''u1'', au_email = ''a@x.com'', au_name = Some ''A'', au_image = None,
            au_role = None, au_status = None\<rparr>"
  by (simp add: authorize_basic_def example_defs)

text \<open>
  Claim C1, amended: the advanced \<^verbatim>\<open>authorize\<close> never returns a user object for a
  row whose status is SUSPENDED or PENDING, whatever the credentials and whatever the
  hash comparison answers.
\<close>

theorem authorize_advanced_blocks_suspended_pending:
  assumes "findUnique (cred_email c) = Some user"
    and "user_status user = ''SUSPENDED'' \<or> user_status user = ''PENDING''"
  shows "\<forall>u. authorize_advanced findUnique compare (Some c) \<noteq> Inr u"
  using assms by (auto simp: authorize_advanced_def split: option.splits)

theorem authorize_advanced_blocks_suspended_pending_witness:
  "example_table ''SUSPENDED'' (cred_email (example_credentials ''secret1''))
     = Some (example_user ''SUSPENDED'')
   \<and> user_status (example_user ''SUSPENDED'') = ''SUSPENDED''
   \<and> authorize_advanced (example_table ''SUSPENDED'') example_compare
        (Some (example_credentials ''secret1'')) = Inl AccountSuspended"
  using authorize_advanced_blocks_suspended_pending
    [of "example_table ''SUSPENDED''" "example_credentials ''secret1''"
      "example_user ''SUSPENDED''" example_compare]
  by (simp add: authorize_advanced_def example_defs)

text \<open>
  Claim C2, as stated: the status gate precedes the password check, so a suspended
  account with a wrong password fails with the account-status error and not with the
  invalid-credentials error. In the source the comparison comes first: the suspended
  example user with a wrong secret gets \<open>InvalidCredentials\<close>.
\<close>

theorem suspended_wrong_password_invalid_credentials:
  "authorize_advanced (example_table ''SUSPENDED'') example_compare
     (Some (example_credentials ''wrong'')) = Inl InvalidCredentials
   \<and> Inl InvalidCredentials \<noteq> (Inl AccountSuspended :: auth_error + auth_user)"
  by (simp add: authorize_advanced_def example_defs)

text \<open>
  Claim C2, amended: the password check precedes the status gate. For a row whose
  status is SUSPENDED or PENDING and credentials with both fields present, the advanced
  \<^verbatim>\<open>authorize\<close> fails with the status error (suspended, respectively pending) exactly
  when the row has a stored hash that the secret matches, and with
  \<open>InvalidCredentials\<close> otherwise.
\<close>

theorem authorize_advanced_password_before_status:
  assumes "cred_email c \<noteq> []" and "cred_password c \<noteq> []"
    and "findUnique (cred_email c) = Some user"
    and "user_status user = ''SUSPENDED'' \<or> user_status user = ''PENDING''"
  shows "authorize_advanced findUnique compare (Some c) =
     (if \<exists>hashed. user_password user = Some hashed \<and> hashed \<noteq> []
            \<and> compare (cred_password c) hashed
      then (if user_status user = ''SUSPENDED'' then Inl AccountSuspended
            else Inl AccountPending)
      else Inl InvalidCredentials)"
  using assms by (auto simp: authorize_advanced_def split: option.splits)

theorem authorize_advanced_password_before_status_witness:
  "cred_email (example_credentials ''secret1'') \<noteq> []
   \<and> cred_password (example_credentials ''secret1'') \<noteq> []
   \<and> example_table ''PENDING'' (cred_email (example_credentials ''secret1''))
       = Some (example_user ''PENDING'')
   \<and> user_status (example_user ''PENDING'') = ''PENDING''
   \<and> authorize_advanced (example_table ''PENDING'') example_compare
        (Some (example_credentials ''secret1'')) = Inl AccountPending"
  using authorize_advanced_password_before_status
    [of "example_credentials ''secret1''" "example_table ''PENDING''"
      "example_user ''PENDING''" example_compare]
  by (simp add: example_defs)

text \<open>
  Claim C3, as stated: for every identifier and secret for which the store holds an
  active record whose hash matches, authorize succeeds with the record's id and the
  record's role. The user object of the basic \<^verbatim>\<open>authorize\<close> has no role: for the
  active example user, whose role is USER, the role of the result is undefined.
\<close>

theorem authorize_basic_returns_no_role:
  "map_option au_role (authorize_basic (example_table ''ACTIVE'') example_compare
     (Some (example_credentials ''secret1''))) = Some None
   \<and> user_role (example_user ''ACTIVE'') = ''USER''"
  by (simp add: authorize_basic_def example_defs)

text \<open>
  Claim C3, amended: for credentials with both fields present and a row with a
  non-empty stored hash that the secret matches, the basic \<^verbatim>\<open>authorize\<close> returns a
  user object whose id is the row's id and which has no role; when the row's status is
  ACTIVE, the advanced \<^verbatim>\<open>authorize\<close> returns a user object whose id and role are
  the row's.
\<close>

theorem authorize_success_id_role:
  assumes "cred_email c \<noteq> []" and "cred_password c \<noteq> []"
    and "findUnique (cred_email c) = Some user"
    and "user_password user = Some hashed" and "hashed \<noteq> []"
    and "compare (cred_password c) hashed"
  shows "(\<exists>u. authorize_basic findUnique compare (Some c) = Some u
            \<and> au_id u = user_id user \<and> au_role u = None)
       \<and> (user_status user = ''ACTIVE'' \<longrightarrow>
            (\<exists>u. authorize_advanced findUnique compare (Some c) = Inr u
               \<and> au_id u = user_id user \<and> au_role u = Some (user_role user)))"
  using assms by (simp add: authorize_basic_def authorize_advanced_def)

theorem authorize_success_id_role_witness:
  "cred_email (example_credentials ''secret1'') \<noteq> []
   \<and> cred_password (example_credentials ''secret1'') \<noteq> []
   \<and> example_table ''ACTIVE'' (cred_email (example_credentials ''secret1''))
       = Some (example_user ''ACTIVE'')
   \<and> user_password (example_user ''ACTIVE'') = Some ''hash:secret1''
   \<and> example_compare (cred_password (example_credentials ''secret1'')) ''hash:secret1''
   \<and> user_status (example_user ''ACTIVE'') = ''ACTIVE''
   \<and> (\<exists>u. authorize_advanced (example_table ''ACTIVE'') example_compare
              (Some (example_credentials ''secret1'')) = Inr u
          \<and> au_id u = ''u1'' \<and> au_role u = Some ''USER'')"
  using authorize_success_id_role
    [of "example_credentials ''secret1''" "example_table ''ACTIVE''"
      "example_user ''ACTIVE''" "''hash:secret1''" example_compare]
  by (simp add: example_defs)

text \<open>
  Claim C4, as stated: for every identifier with no matching record, the result is the
  same invalid-credentials result as for a wrong password against an existing
  identifier. The advanced \<^verbatim>\<open>authorize\<close> tests the presence of both fields before
  the lookup: the empty identifier, which matches no record, gets
  \<open>EmailPasswordRequired\<close>, while a wrong password for the example user gets
  \<open>InvalidCredentials\<close>.
\<close>

theorem authorize_advanced_missing_field_distinct:
  "authorize_advanced (\<lambda>e. None) example_compare
      (Some \<lparr>cred_email = [], cred_password = ''secret1''\<rparr>) = Inl EmailPasswordRequired
   \<and> authorize_advanced (example_table ''ACTIVE'') example_compare
      (Some (example_credentials ''wrong'')) = Inl InvalidCredentials
   \<and> Inl EmailPasswordRequired \<noteq> (Inl InvalidCredentials :: auth_error + auth_user)"
  by (simp add: authorize_advanced_def example_defs)

text \<open>
  Claim C4, amended: when no row matches the identifier, or the matching row has no
  stored hash (null or empty), or the secret does not match the stored hash, the basic
  \<^verbatim>\<open>authorize\<close> returns null, and the advanced \<^verbatim>\<open>authorize\<close>, for
  credentials with both fields present, fails with \<open>InvalidCredentials\<close>. The three
  causes give one and the same result.
\<close>

theorem authorize_failures_indistinguishable:
  assumes "findUnique (cred_email c) = None
      \<or> (\<exists>user. findUnique (cred_email c) = Some user
            \<and> (user_password user = None \<or> user_password user = Some []
                \<or> (\<exists>hashed. user_password user = Some hashed
                      \<and> \<not> compare (cred_password c) hashed)))"
  shows "authorize_basic findUnique compare (Some c) = None
       \<and> (cred_email c \<noteq> [] \<and> cred_password c \<noteq> [] \<longrightarrow>
            authorize_advanced findUnique compare (Some c) = Inl InvalidCredentials)"
  using assms
  by (auto simp: authorize_basic_def authorize_advanced_def split: option.splits)

theorem authorize_failures_indistinguishable_witness:
  "(\<lambda>e. None) (cred_email (example_credentials ''secret1'')) = (None :: user_row option)
   \<and> cred_email (example_credentials ''secret1'') \<noteq> []
   \<and> cred_password (example_credentials ''secret1'') \<noteq> []
   \<and> authorize_basic (\<lambda>e. None) example_compare
        (Some (example_credentials ''secret1'')) = None
   \<and> authorize_advanced (\<lambda>e. None) example_compare
        (Some (example_credentials ''secret1'')) = Inl InvalidCredentials"
  using authorize_failures_indistinguishable
    [of "\<lambda>e. None" "example_credentials ''secret1''" example_compare]
  by (simp add: example_defs)

section \<open>Properties of the route protection\<close>

lemma admin_path_facts:
  assumes "startsWith pathname ''/dashboard/admin''"
  shows "startsWith pathname ''/dashboard''" and "\<not> startsWith pathname ''/auth''"
    and "pathname \<noteq> ''/''"
  using assms by (auto simp: startsWith_def elim!: prefixE)

lemma admin_guide_path_facts:
  assumes "startsWith pathname ''/admin''"
  shows "\<not> startsWith pathname ''/dashboard''"
  using assms by (auto simp: startsWith_def elim!: prefixE)

text \<open>
  Claim C5, as stated: on a route that requires the admin role the gate gives three
  different decisions: insufficient role for a valid session with the user role,
  unauthenticated for a request without token, allow for a valid admin session.
  The \<^verbatim>\<open>authorized\<close> callback of the authentication guide answers with a boolean:
  on \<^verbatim>\<open>/admin/users\<close> it gives the same answer, false, for a token with role USER
  and for no token.
\<close>

theorem authorized_route_protection_same_denial:
  "authorized_route_protection
      (Some ((example_token 0 86400)\<lparr>tok_role := Some ''USER''\<rparr>)) ''/admin/users'' = False
   \<and> authorized_route_protection (None :: timed_token option) ''/admin/users'' = False"
  by (simp add: authorized_route_protection_def startsWith_def example_token_def)

text \<open>
  Claim C5, amended. For every path under \<^verbatim>\<open>/dashboard/admin\<close>, the advanced
  middleware refuses a request without token in its \<^verbatim>\<open>authorized\<close> callback and
  redirects it to the sign-in page; it redirects a request whose token has another role
  than admin to \<^verbatim>\<open>/dashboard\<close>; it lets a request whose token has the role admin
  pass. The \<^verbatim>\<open>ProtectedRoute\<close> component with the required role admin, once the
  session has loaded, renders nothing and pushes the sign-in page without a session,
  renders nothing and pushes \<^verbatim>\<open>/dashboard\<close> for a session with another role, and
  renders its children for a session with the role admin. The \<^verbatim>\<open>authorized\<close>
  callback of the authentication guide, on every path under \<^verbatim>\<open>/admin\<close>, answers
  true for a token with the role ADMIN and false otherwise.
\<close>

theorem admin_route_matrix:
  assumes "startsWith pathname ''/dashboard/admin''"
    and "startsWith admin_pathname ''/admin''"
    and "status \<noteq> ''loading''"
    and "ses_user ses = Some su"
  shows "\<not> authorized_advanced (None :: 'a token_scheme option) pathname
    \<and> middleware_advanced (None :: 'a token_scheme option) pathname
          = Redirect ''/auth/sign-in'' [(''callbackUrl'', pathname)]
    \<and> authorized_advanced (Some (t :: 'a token_scheme)) pathname
    \<and> middleware_advanced (Some t) pathname
          = (if tok_role t = Some ''admin'' then Next else Redirect ''/dashboard'' [])
    \<and> ProtectedRoute None status (Some ''admin'') = Inr Null
    \<and> ProtectedRoute_effect None status (Some ''admin'') = Inr (Some ''/auth/sign-in'')
    \<and> ProtectedRoute (Some ses) status (Some ''admin'')
          = Inr (if su_role su = Some ''admin'' then Children else Null)
    \<and> ProtectedRoute_effect (Some ses) status (Some ''admin'')
          = Inr (if su_role su = Some ''admin'' then None else Some ''/dashboard'')
    \<and> authorized_route_protection (tok :: 'a token_scheme option) admin_pathname
          = (case tok of None \<Rightarrow> False | Some t' \<Rightarrow> tok_role t' = Some ''ADMIN'')"
  using assms admin_path_facts [of pathname] admin_guide_path_facts [of admin_pathname]
  by (simp add: authorized_advanced_def middleware_advanced_def ProtectedRoute_def
      ProtectedRoute_effect_def role_mismatch_def authorized_route_protection_def)

theorem admin_route_matrix_witness:
  "startsWith ''/dashboard/admin/users'' ''/dashboard/admin''
   \<and> startsWith ''/admin/users'' ''/admin''
   \<and> ''authenticated'' \<noteq> ''loading''
   \<and> ses_user example_session = Some example_session_user
   \<and> middleware_advanced (None :: timed_token option) ''/dashboard/admin/users''
       = Redirect ''/auth/sign-in'' [(''callbackUrl'', ''/dashboard/admin/users'')]
   \<and> middleware_advanced (Some ((example_token 0 86400)\<lparr>tok_role := Some ''user''\<rparr>))
        ''/dashboard/admin/users'' = Redirect ''/dashboard'' []
   \<and> ProtectedRoute (Some example_session) ''authenticated'' (Some ''admin'') = Inr Null"
  using admin_route_matrix
    [where pathname = "''/dashboard/admin/users''" and admin_pathname = "''/admin/users''"
      and status = "''authenticated''" and ses = example_session
      and su = example_session_user
      and t = "(example_token 0 86400)\<lparr>tok_role := Some ''user''\<rparr>"
      and tok = "None :: timed_token option"]
  by (simp add: startsWith_def example_session_def example_session_user_def
      example_token_def)

section \<open>Properties of the token and session callbacks\<close>




text \<open>
  Claim C7, as stated: every repetition of the session callback on a token returns
  equal claims, and no call mutates the token or any other observable state. The
  callbacks assign into the session object that they are given: after a call on the
  example objects, whose session user has no id, the objects are not what they were,
  and the session user carries the id of the token.
\<close>

theorem session_call_writes_session:
  "snd (session_advanced_call example_objects) \<noteq> example_objects
   \<and> snd (session_basic_call example_objects) \<noteq> example_objects
   \<and> map_option su_id (ses_user (obj_session example_objects)) = Some None
   \<and> map_option su_id (ses_user (obj_session (snd (session_advanced_call example_objects))))
       = Some (Some ''u1'')"
  by (simp add: session_advanced_call_def session_basic_call_def session_advanced_def
      session_basic_def example_objects_def example_session_def example_session_user_def
      example_token_def Let_def)

text \<open>
  Claim C7, amended: no call of a session callback changes the token. A call changes
  one object only, the session it is given, which is also the value it returns (the
  advanced callback may instead throw a TypeError, and then it has changed nothing).
  A second call on the objects that the first call left behind returns the same value
  and leaves the same objects behind. This holds for every token, expired or not: the
  callbacks do not read the time.
\<close>

theorem session_call_idempotent:
  "obj_token (snd (session_advanced_call objs)) = obj_token objs
   \<and> session_advanced_call (snd (session_advanced_call objs)) = session_advanced_call objs
   \<and> (fst (session_advanced_call objs) = Inl TypeError
         \<and> snd (session_advanced_call objs) = objs
       \<or> fst (session_advanced_call objs)
           = Inr (obj_session (snd (session_advanced_call objs))))
   \<and> obj_token (snd (session_basic_call objs)) = obj_token objs
   \<and> session_basic_call (snd (session_basic_call objs)) = session_basic_call objs
   \<and> obj_session (snd (session_basic_call objs)) = fst (session_basic_call objs)"
  by (auto simp: session_advanced_call_def session_basic_call_def session_advanced_def
      session_basic_def Let_def split: option.splits sum.splits)

text \<open>
  Claim C8, as stated: the session lifetime used when a token is issued is 86400
  seconds. The lifetime in the advanced session options is \<^verbatim>\<open>maxAge\<close>, and it is
  not 86400.
\<close>

theorem maxAge_not_one_day:
  "maxAge session_options_advanced \<noteq> Some 86400"
  by (simp add: session_options_advanced_def)

text \<open>
  Claim C8, amended: the advanced session options set the lifetime \<^verbatim>\<open>maxAge\<close> to
  2592000 seconds (30 days) and \<^verbatim>\<open>updateAge\<close>, the interval after which a session
  is written again, to 86400 seconds (24 hours); the basic session options set neither.
\<close>

theorem session_options_lifetime:
  "maxAge session_options_advanced = Some 2592000
   \<and> updateAge session_options_advanced = Some 86400
   \<and> maxAge session_options_basic = None
   \<and> updateAge session_options_basic = None"
  by (simp add: session_options_advanced_def session_options_basic_def)

text \<open>
  Claim C10: without a user object (and without an account object, which the library
  passes together with the user object) the jwt callback returns the token it was
  given, with every property unchanged.
\<close>

theorem jwt_without_user_identity:
  "jwt_basic tok None = tok \<and> jwt_advanced tok None None = tok"
  by (simp add: jwt_basic_def jwt_advanced_def)

section \<open>Properties of the sign-in form\<close>

text \<open>
  Whatever non-empty error the sign-in result carries, the form shows one fixed
  message and makes no call on the router.
\<close>

lemma handleSubmit_any_error:
  assumes "e \<noteq> []"
  shows "handleSubmit st (Resolved (Some \<lparr>sir_error = Some e\<rparr>)) getSession_outcome
          = (st\<lparr>fs_isLoading := True, fs_error := ''Invalid email or password''\<rparr>, [])"
  using assms by (simp add: handleSubmit_def)

text \<open>
  Claim C9: for every failed authentication attempt, whichever error
  \<^verbatim>\<open>authorize\<close> has thrown, the form shows the single message
  \<^verbatim>\<open>Invalid email or password\<close> (the source writes it with a capital I), and
  nothing is thrown out of the handler: a rejected \<^verbatim>\<open>signIn\<close> ends in the
  \<^verbatim>\<open>catch\<close> block, which shows a fixed message too.
\<close>

theorem handleSubmit_generic_message:
  "fst (handleSubmit st (Resolved (Some \<lparr>sir_error = Some (message e)\<rparr>)) getSession_outcome)
     = st\<lparr>fs_isLoading := True, fs_error := ''Invalid email or password''\<rparr>
   \<and> snd (handleSubmit st (Resolved (Some \<lparr>sir_error = Some (message e)\<rparr>))
        getSession_outcome) = []
   \<and> fst (handleSubmit st Rejected getSession_outcome)
       = st\<lparr>fs_isLoading := False, fs_error := ''An error occurred. Please try again.''\<rparr>"
  by (cases e) (simp_all add: handleSubmit_def)

end
